theory Spec2Isabelle
  imports Complex_Main
begin

section \<open>Data exchanged with the server\<close>

text \<open>
  The two frontends (\<^verbatim>\<open>script.js\<close> for PDF resumes, its sibling for images with OCR)
  receive field objects from the server and read only \<^verbatim>\<open>id\<close>, \<^verbatim>\<open>label\<close>,
  \<^verbatim>\<open>value\<close> and \<^verbatim>\<open>confidence\<close>. Every other property of a field object (its position,
  its font description) is carried along untouched; the component \<open>rest\<close> stands for it.
  A JSON number is modelled by its real value; a property that is absent, \<^verbatim>\<open>undefined\<close> or
  \<^verbatim>\<open>null\<close> is \<open>None\<close>.
\<close>

record 'x textField =
  id_f :: string
  label :: string
  value_f :: string
  confidence :: "real option"
  rest :: 'x

record 'x image =
  format :: string
  data_f :: string
  rest_i :: 'x

text \<open>\<^verbatim>\<open>extractedData\<close> of the image frontend has \<^verbatim>\<open>fields\<close>; \<^verbatim>\<open>parsedData\<close> of the PDF
  frontend has \<^verbatim>\<open>fields\<close> and \<^verbatim>\<open>images\<close>.\<close>

record 'x extracted =
  fields_f :: "'x textField list"

record 'x parsed = "'x extracted" +
  images :: "'x image list"

record upload_file =
  name_f :: string
  size_f :: nat
  type :: string

text \<open>The JSON body of the answer to \<^verbatim>\<open>/upload\<close>.\<close>

record 'd uploadBody =
  error_u :: "string option"
  sessionId_u :: "string option"
  data_u :: "'d option"
  message_u :: "string option"

text \<open>
  What \<^verbatim>\<open>await fetch(...)\<close> followed by \<^verbatim>\<open>await response.json()\<close> can give:
  the fetch rejects (network failure) with a message; or it resolves with the flag
  \<^verbatim>\<open>response.ok\<close>, and then reading the body rejects with a message (\<open>Inl\<close>), or gives
  JSON \<^verbatim>\<open>null\<close> (\<open>Inr None\<close>), or gives an object (\<open>Inr (Some b)\<close>).
\<close>

datatype 'b fetchResult =
    Rejected string
  | Resolved bool "string + 'b option"

datatype 'x payload =
    FormFile upload_file
  | JsonSession "string option"

record 'x request =
  url :: string
  method_r :: string
  body :: "'x payload"

section \<open>The page\<close>

datatype toastType = success | error | warning

datatype pageSection = Upload | Edit | Preview

datatype callback =
    AnimateProgress string
  | FinishUpload string
  | FadeToast nat
  | RemoveToast nat

record classes =
  hidden :: bool
  active :: bool

record toastEl =
  tid :: nat
  toastClass :: toastType
  textContent :: string
  animation :: "string option"

datatype control = InputEl | TextareaEl

text \<open>
  The children \<^verbatim>\<open>generateEditForm\<close> appends to the form: a group for a text field (label
  text, the label's \<^verbatim>\<open>for\<close>, the confidence shown in the badge if there is one, the
  element created, its id, its value, its \<^verbatim>\<open>data-field-index\<close>), a group for an
  image (index, format and data of the preview), and the note that no text was found.
\<close>

datatype formNode =
    FieldGroup string string "real option" control string string nat
  | ImageGroup nat string string
  | NoFieldsMessage

record 'x dom =
  uploadZoneDragOver :: bool
  fileInputValue :: string
  uploadSection :: classes
  editSection :: classes
  previewSection :: classes
  editForm :: "formNode list"
  uploadProgressHidden :: bool
  progressFillWidth :: string
  progressFillTransition :: string
  toastContainer :: "toastEl list"
  toastsCreated :: nat
  timers :: "(nat \<times> callback) list"
  requests :: "'x request list"
  console :: "(string \<times> string) list"

text \<open>The globals both scripts declare, then those of each script.\<close>

record 'x app_state = "'x dom" +
  sessionId :: "string option"
  currentFields :: "'x textField list"

record 'x pdf_state = "'x app_state" +
  parsedData :: "'x parsed option"
  currentImages :: "'x image list"

record 'x img_state = "'x app_state" +
  extractedData :: "'x extracted option"

text \<open>A call that can end in an exception nobody catches: the message and the state
  reached when it was thrown.\<close>

datatype 's completion = Normal 's | Thrown string 's

section \<open>JavaScript operators\<close>

text \<open>\<^verbatim>\<open>s || d\<close> for a string that may be missing: the empty string is falsy too.\<close>

definition js_or :: "string option \<Rightarrow> string \<Rightarrow> string" where
  "js_or s d = (case s of None \<Rightarrow> d | Some t \<Rightarrow> if t = [] then d else t)"

definition truthy_string :: "string option \<Rightarrow> bool" where
  "truthy_string s = (case s of None \<Rightarrow> False | Some t \<Rightarrow> t \<noteq> [])"

text \<open>\<^verbatim>\<open>n && n < 70\<close> for a number that may be missing: zero is falsy.\<close>

definition lowConfidence :: "real option \<Rightarrow> bool" where
  "lowConfidence c = (case c of None \<Rightarrow> False | Some n \<Rightarrow> n \<noteq> 0 \<and> n < 70)"

text \<open>Reading a property of \<^verbatim>\<open>null\<close> throws a TypeError; its message depends on the
  engine, and the model uses one fixed text for it.\<close>

definition typeErrorMessage :: string where
  "typeErrorMessage = ''TypeError''"

section \<open>Functions the two scripts share word for word\<close>

text \<open>
  A handler is a function from the state of the page and the script's globals to the
  state it leaves. \<^verbatim>\<open>fetch\<close> appends the request to \<open>requests\<close>; what the server
  answers is an argument of the handler that awaits it, so an \<^verbatim>\<open>async\<close> function is one
  step of the model, and what other handlers might do while a request is under way is
  outside it. \<^verbatim>\<open>setTimeout\<close> appends its callback to \<open>timers\<close>, and \<open>runCallback\<close>
  below says what each callback does once the browser runs it. The elements the scripts
  look up are taken to exist, and the \<^verbatim>\<open>data\<close> of an answer, when there is one, to have
  \<^verbatim>\<open>fields\<close> (and \<^verbatim>\<open>images\<close> for a PDF). The input listener that \<^verbatim>\<open>generateEditForm\<close>
  attaches to a control assigns the typed text to \<^verbatim>\<open>currentFields[index].value\<close>; a
  group of the form carries that index, and the listener is not run by any function here.
\<close>

definition setTimeout :: "callback \<Rightarrow> nat \<Rightarrow> ('x, 'm) dom_scheme \<Rightarrow> ('x, 'm) dom_scheme" where
  "setTimeout cb ms st = st\<lparr>timers := timers st @ [(ms, cb)]\<rparr>"

definition fetch :: "string \<Rightarrow> string \<Rightarrow> 'x payload \<Rightarrow> ('x, 'm) dom_scheme \<Rightarrow> ('x, 'm) dom_scheme" where
  "fetch u m b st = st\<lparr>requests := requests st @ [\<lparr>url = u, method_r = m, body = b\<rparr>]\<rparr>"

definition console_error :: "string \<Rightarrow> string \<Rightarrow> ('x, 'm) dom_scheme \<Rightarrow> ('x, 'm) dom_scheme" where
  "console_error what msg st = st\<lparr>console := console st @ [(what, msg)]\<rparr>"

definition showToast :: "string \<Rightarrow> toastType \<Rightarrow> ('x, 'm) dom_scheme \<Rightarrow> ('x, 'm) dom_scheme" where
  "showToast msg ty st =
     setTimeout (FadeToast (toastsCreated st)) 4000
       (st\<lparr>toastContainer := toastContainer st @
              [\<lparr>tid = toastsCreated st, toastClass = ty, textContent = msg, animation = None\<rparr>],
           toastsCreated := Suc (toastsCreated st)\<rparr>)"

definition showSection :: "pageSection \<Rightarrow> ('x, 'm) dom_scheme \<Rightarrow> ('x, 'm) dom_scheme" where
  "showSection s st =
     st\<lparr>uploadSection := \<lparr>hidden = (s \<noteq> Upload), active = (s = Upload)\<rparr>,
        editSection := \<lparr>hidden = (s \<noteq> Edit), active = (s = Edit)\<rparr>,
        previewSection := \<lparr>hidden = (s \<noteq> Preview), active = (s = Preview)\<rparr>\<rparr>"

definition fadeToast :: "nat \<Rightarrow> ('x, 'm) dom_scheme \<Rightarrow> ('x, 'm) dom_scheme" where
  "fadeToast k st =
     setTimeout (RemoveToast k) 300
       (st\<lparr>toastContainer :=
            map (\<lambda>t. if tid t = k then t\<lparr>animation := Some ''slideInRight 0.3s ease-out reverse''\<rparr> else t)
              (toastContainer st)\<rparr>)"

definition removeToast :: "nat \<Rightarrow> ('x, 'm) dom_scheme \<Rightarrow> ('x, 'm) dom_scheme" where
  "removeToast k st = st\<lparr>toastContainer := filter (\<lambda>t. tid t \<noteq> k) (toastContainer st)\<rparr>"

definition fieldGroup :: "bool \<Rightarrow> nat \<times> 'x textField \<Rightarrow> formNode" where
  "fieldGroup badges p =
     (case p of (index, field) \<Rightarrow>
        FieldGroup (label field) (id_f field)
          (if badges \<and> lowConfidence (confidence field) then confidence field else None)
          (if length (value_f field) > 100 then TextareaEl else InputEl)
          (id_f field) (value_f field) index)"

definition imageGroup :: "nat \<times> 'x image \<Rightarrow> formNode" where
  "imageGroup p = (case p of (index, img) \<Rightarrow> ImageGroup index (format img) (data_f img))"

section \<open>The PDF frontend\<close>

definition pdf_API_BASE_URL :: string where
  "pdf_API_BASE_URL = ''http://localhost:5000/api''"

definition pdf_generateEditForm :: "'x pdf_state \<Rightarrow> 'x pdf_state completion" where
  "pdf_generateEditForm st =
     (let st1 = st\<lparr>editForm := []\<rparr> in
      case parsedData st1 of
        None \<Rightarrow> Thrown typeErrorMessage st1
      | Some d \<Rightarrow>
          Normal (st1\<lparr>currentFields := fields_f d, currentImages := images d,
                      editForm := map (fieldGroup False) (enumerate 0 (fields_f d)) @
                                  map imageGroup (enumerate 0 (images d))\<rparr>))"

definition pdf_uploadFailed :: "string \<Rightarrow> 'x pdf_state \<Rightarrow> 'x pdf_state" where
  "pdf_uploadFailed msg st =
     (showToast msg error (console_error ''Upload error:'' msg st))\<lparr>uploadProgressHidden := True\<rparr>"

definition pdf_uploadFile ::
  "upload_file \<Rightarrow> 'x parsed uploadBody fetchResult \<Rightarrow> 'x pdf_state \<Rightarrow> 'x pdf_state" where
  "pdf_uploadFile file resp st =
     (if size_f file > 5 * 1024 * 1024 then showToast ''File size exceeds 5 MB limit'' error st
      else if type file \<noteq> ''application/pdf'' then showToast ''Only PDF files are allowed'' error st
      else
        let st1 = st\<lparr>uploadProgressHidden := False, progressFillWidth := ''0%''\<rparr>;
            st2 = setTimeout (AnimateProgress ''width 2s ease-in-out'') 100 st1;
            st3 = fetch (pdf_API_BASE_URL @ ''/upload'') ''POST'' (FormFile file) st2
        in case resp of
             Rejected msg \<Rightarrow> pdf_uploadFailed msg st3
           | Resolved ok (Inl msg) \<Rightarrow> pdf_uploadFailed msg st3
           | Resolved ok (Inr None) \<Rightarrow>
               pdf_uploadFailed typeErrorMessage
                 (if ok then st3\<lparr>progressFillWidth := ''100%''\<rparr> else st3)
           | Resolved ok (Inr (Some b)) \<Rightarrow>
               if \<not> ok then pdf_uploadFailed (js_or (error_u b) ''Upload failed'') st3
               else setTimeout (FinishUpload ''Resume parsed successfully!'') 500
                      (st3\<lparr>progressFillWidth := ''100%'',
                           sessionId := sessionId_u b, parsedData := data_u b\<rparr>))"

definition pdf_runCallback :: "callback \<Rightarrow> 'x pdf_state \<Rightarrow> 'x pdf_state completion" where
  "pdf_runCallback cb st =
     (case cb of
        AnimateProgress tr \<Rightarrow>
          Normal (st\<lparr>progressFillTransition := tr, progressFillWidth := ''70%''\<rparr>)
      | FinishUpload msg \<Rightarrow>
          (case pdf_generateEditForm (showToast msg success st) of
             Thrown e s \<Rightarrow> Thrown e s
           | Normal s \<Rightarrow> Normal ((showSection Edit s)\<lparr>uploadProgressHidden := True\<rparr>))
      | FadeToast k \<Rightarrow> Normal (fadeToast k st)
      | RemoveToast k \<Rightarrow>
          if k \<in> tid ` set (toastContainer st) then Normal (removeToast k st)
          else Thrown ''NotFoundError'' st)"

definition pdf_handleDrop ::
  "upload_file option \<Rightarrow> 'x parsed uploadBody fetchResult \<Rightarrow> 'x pdf_state \<Rightarrow> 'x pdf_state" where
  "pdf_handleDrop dropped resp st =
     (let st1 = st\<lparr>uploadZoneDragOver := False\<rparr> in
      case dropped of
        None \<Rightarrow> showToast ''Please upload a PDF file'' error st1
      | Some file \<Rightarrow>
          if type file = ''application/pdf'' then pdf_uploadFile file resp st1
          else showToast ''Please upload a PDF file'' error st1)"

definition pdf_resetUpload :: "'r fetchResult \<Rightarrow> 'x pdf_state \<Rightarrow> 'x pdf_state" where
  "pdf_resetUpload resp st =
     (let st1 =
            (if truthy_string (sessionId st) then
               let sent = fetch (pdf_API_BASE_URL @ ''/clear-session'') ''POST''
                            (JsonSession (sessionId st)) st
               in case resp of
                    Rejected msg \<Rightarrow> console_error ''Clear session error:'' msg sent
                  | Resolved ok b \<Rightarrow> sent
             else st);
          st2 = st1\<lparr>fileInputValue := [], editForm := [],
                   sessionId := None, currentFields := [],
                   parsedData := None, currentImages := []\<rparr>
      in showToast ''Ready for new upload'' success (showSection Upload st2))"

section \<open>The image frontend\<close>

definition img_API_BASE_URL :: string where
  "img_API_BASE_URL = ''http://localhost:5001/api''"

definition img_generateEditForm :: "'x img_state \<Rightarrow> 'x img_state completion" where
  "img_generateEditForm st =
     (let st1 = st\<lparr>editForm := []\<rparr> in
      case extractedData st1 of
        None \<Rightarrow> Thrown typeErrorMessage st1
      | Some d \<Rightarrow>
          let st2 = st1\<lparr>currentFields := fields_f d,
                       editForm := map (fieldGroup True) (enumerate 0 (fields_f d))\<rparr>
          in Normal (if length (currentFields st2) = 0
                     then st2\<lparr>editForm := editForm st2 @ [NoFieldsMessage]\<rparr>
                     else st2))"

definition img_resetUpload :: "'r fetchResult \<Rightarrow> 'x img_state \<Rightarrow> 'x img_state" where
  "img_resetUpload resp st =
     (let st1 =
            (if truthy_string (sessionId st) then
               let sent = fetch (img_API_BASE_URL @ ''/clear-session'') ''POST''
                            (JsonSession (sessionId st)) st
               in case resp of
                    Rejected msg \<Rightarrow> console_error ''Clear session error:'' msg sent
                  | Resolved ok b \<Rightarrow> sent
             else st);
          st2 = st1\<lparr>fileInputValue := [], editForm := [],
                   sessionId := None, currentFields := [],
                   extractedData := None\<rparr>
      in showToast ''Ready for new upload'' success (showSection Upload st2))"

section \<open>The page when a script has just loaded\<close>

text \<open>
  Each script starts with \<^verbatim>\<open>sessionId = null\<close>, no data and empty arrays. The markup of
  the page is not part of the scripts; the page below shows the upload section, as
  \<^verbatim>\<open>showSection('upload')\<close> would leave it, and nothing else.
\<close>

definition pdf_initial :: "unit pdf_state" where
  "pdf_initial =
     \<lparr>uploadZoneDragOver = False, fileInputValue = [],
      uploadSection = \<lparr>hidden = False, active = True\<rparr>,
      editSection = \<lparr>hidden = True, active = False\<rparr>,
      previewSection = \<lparr>hidden = True, active = False\<rparr>,
      editForm = [], uploadProgressHidden = True, progressFillWidth = [],
      progressFillTransition = [],
      toastContainer = [], toastsCreated = 0,
      timers = [], requests = [], console = [],
      sessionId = None, currentFields = [], parsedData = None, currentImages = []\<rparr>"

definition img_initial :: "unit img_state" where
  "img_initial =
     \<lparr>uploadZoneDragOver = False, fileInputValue = [],
      uploadSection = \<lparr>hidden = False, active = True\<rparr>,
      editSection = \<lparr>hidden = True, active = False\<rparr>,
      previewSection = \<lparr>hidden = True, active = False\<rparr>,
      editForm = [], uploadProgressHidden = True, progressFillWidth = [],
      progressFillTransition = [],
      toastContainer = [], toastsCreated = 0,
      timers = [], requests = [], console = [],
      sessionId = None, currentFields = [], extractedData = None\<rparr>"

section \<open>The server's regenerate and preview, after the specification\<close>

text \<open>
  The server (its routes, the regenerator, the preview aggregator and the style resolver)
  is not among the sources: the scripts above only call it. The definitions of this
  section follow the specification's sentences instead. A LayoutModel is taken as its
  ordered sequence of TextFields; a session store maps a session identifier to the
  LayoutModel of that session.
\<close>

datatype pipelineError =
    DecodeError
  | UnsupportedFormatError
  | InvalidFieldSetError
  | RenderError
  | SessionNotFoundError
  | BackendUnavailableError

datatype category = FontSubstitution | LowConfidence | EmptyResult

record pipelineWarning =
  fieldId :: "string option"
  category :: category

text \<open>Modelled from the spec: the regenerator's validation, absent from the sources.
  "Validates editedFields length and id set matches the LayoutModel's fields exactly
  (no added/removed fields)."\<close>

definition fieldSetMatches :: "'x textField list \<Rightarrow> 'x textField list \<Rightarrow> bool" where
  "fieldSetMatches layout editedFields \<longleftrightarrow>
     length editedFields = length layout \<and>
     set (map id_f editedFields) = set (map id_f layout)"

text \<open>Modelled from the spec: the \<^verbatim>\<open>regenerate\<close> entry point, absent from the sources.
  An unknown session is a SessionNotFoundError; a field set that does not match is an
  InvalidFieldSetError; otherwise the renderer runs. The renderer and its encoders are
  absent as well and the specification leaves their output open, so \<open>render\<close> is a
  parameter: it answers with the output document, an UnsupportedFormatError or a
  RenderError. Only \<^verbatim>\<open>clearSession\<close> destroys a session, so the store is returned as it
  was.\<close>

definition regenerate ::
  "('x textField list \<Rightarrow> 'x textField list \<Rightarrow> 'f \<Rightarrow> pipelineError + 'o) \<Rightarrow>
   (string \<rightharpoonup> 'x textField list) \<Rightarrow> string \<Rightarrow> 'x textField list \<Rightarrow> 'f \<Rightarrow>
   (pipelineError + 'o) \<times> (string \<rightharpoonup> 'x textField list)" where
  "regenerate render sessions sid editedFields targetFormat =
     (case sessions sid of
        None \<Rightarrow> (Inl SessionNotFoundError, sessions)
      | Some layout \<Rightarrow>
          if fieldSetMatches layout editedFields
          then (render layout editedFields targetFormat, sessions)
          else (Inl InvalidFieldSetError, sessions))"

text \<open>Modelled from the spec: the extraction-time rule for a low-confidence warning,
  absent from the sources. "A TextField with confidence below a threshold (policy
  default: 70) generates a lowConfidence Warning"; a field without a confidence (PDF
  extraction) generates none.\<close>

definition belowThreshold :: "'x textField \<Rightarrow> bool" where
  "belowThreshold f = (case confidence f of None \<Rightarrow> False | Some c \<Rightarrow> c < 70)"

text \<open>Modelled from the spec: whether a field of the LayoutModel still has its extracted
  text among the edited fields, absent from the sources. "Recompute confidence relevance
  based on whether value still equals the originally extracted text."\<close>

definition unchanged :: "'x textField list \<Rightarrow> 'x textField \<Rightarrow> bool" where
  "unchanged editedFields f =
     (case find (\<lambda>e. id_f e = id_f f) editedFields of
        None \<Rightarrow> False
      | Some e \<Rightarrow> value_f e = value_f f)"

text \<open>Modelled from the spec: the preview aggregator, absent from the sources. It
  "recomputes font-substitution warnings (by resolving every field's styleHint without
  rendering) and re-surfaces any still-relevant low-confidence warnings from extraction for
  fields whose value is unchanged from the OCR-extracted original". The style resolver is
  absent too; \<open>substituted\<close> stands for its answer on a field's style hint.\<close>

definition preview ::
  "('x textField \<Rightarrow> bool) \<Rightarrow> 'x textField list \<Rightarrow> 'x textField list \<Rightarrow> pipelineWarning list" where
  "preview substituted layout editedFields =
     map (\<lambda>e. \<lparr>fieldId = Some (id_f e), category = FontSubstitution\<rparr>)
       (filter substituted editedFields) @
     map (\<lambda>f. \<lparr>fieldId = Some (id_f f), category = LowConfidence\<rparr>)
       (filter (\<lambda>f. belowThreshold f \<and> unchanged editedFields f) layout)"

section \<open>Concrete inputs\<close>

definition photo :: upload_file where
  "photo = \<lparr>name_f = ''photo.png'', size_f = 6000000, type = ''image/png''\<rparr>"

definition big_pdf :: upload_file where
  "big_pdf = \<lparr>name_f = ''portfolio.pdf'', size_f = 5242881, type = ''application/pdf''\<rparr>"

definition blank_scan :: upload_file where
  "blank_scan = \<lparr>name_f = ''blank.png'', size_f = 20480, type = ''image/png''\<rparr>"

definition line1 :: "unit textField" where
  "line1 = \<lparr>id_f = ''field_0'', label = ''Line 1'', value_f = ''J0hn Doe'',
             confidence = Some 42, rest = ()\<rparr>"

definition line2 :: "unit textField" where
  "line2 = \<lparr>id_f = ''field_1'', label = ''Line 2'', value_f = ''Engineer'',
             confidence = Some 91, rest = ()\<rparr>"

definition garbled :: "unit textField" where
  "garbled = \<lparr>id_f = ''field_0'', label = ''Line 1'', value_f = ''l0rem'',
               confidence = Some 0, rest = ()\<rparr>"

definition line3 :: "unit textField" where
  "line3 = \<lparr>id_f = ''field_2'', label = ''Line 3'', value_f = ''john@x.com'',
             confidence = Some 88, rest = ()\<rparr>"

definition one_session :: "string \<rightharpoonup> unit textField list" where
  "one_session = [''6f1c'' \<mapsto> [line1, line2]]"

definition echo_render ::
  "unit textField list \<Rightarrow> unit textField list \<Rightarrow> string \<Rightarrow> pipelineError + string list" where
  "echo_render layout editedFields targetFormat = Inr (map value_f editedFields)"

section \<open>Frame lemmas\<close>

subsection \<open>What the shared functions leave alone\<close>

lemma setTimeout_sel [simp]:
  "dom.more (setTimeout cb ms st) = dom.more st"
  "requests (setTimeout cb ms st) = requests st"
  "editForm (setTimeout cb ms st) = editForm st"
  "toastContainer (setTimeout cb ms st) = toastContainer st"
  "fileInputValue (setTimeout cb ms st) = fileInputValue st"
  "uploadSection (setTimeout cb ms st) = uploadSection st"
  "editSection (setTimeout cb ms st) = editSection st"
  "previewSection (setTimeout cb ms st) = previewSection st"
  "timers (setTimeout cb ms st) = timers st @ [(ms, cb)]"
  by (simp_all add: setTimeout_def)

lemma fetch_sel [simp]:
  "dom.more (fetch u m b st) = dom.more st"
  "requests (fetch u m b st) = requests st @ [\<lparr>url = u, method_r = m, body = b\<rparr>]"
  "editForm (fetch u m b st) = editForm st"
  "toastContainer (fetch u m b st) = toastContainer st"
  "fileInputValue (fetch u m b st) = fileInputValue st"
  "uploadSection (fetch u m b st) = uploadSection st"
  "editSection (fetch u m b st) = editSection st"
  "previewSection (fetch u m b st) = previewSection st"
  "timers (fetch u m b st) = timers st"
  by (simp_all add: fetch_def)

lemma console_error_sel [simp]:
  "dom.more (console_error w e st) = dom.more st"
  "requests (console_error w e st) = requests st"
  "editForm (console_error w e st) = editForm st"
  "toastContainer (console_error w e st) = toastContainer st"
  "fileInputValue (console_error w e st) = fileInputValue st"
  "uploadSection (console_error w e st) = uploadSection st"
  "editSection (console_error w e st) = editSection st"
  "previewSection (console_error w e st) = previewSection st"
  "timers (console_error w e st) = timers st"
  by (simp_all add: console_error_def)

lemma showToast_sel [simp]:
  "dom.more (showToast msg ty st) = dom.more st"
  "requests (showToast msg ty st) = requests st"
  "editForm (showToast msg ty st) = editForm st"
  "toastContainer (showToast msg ty st) = toastContainer st @
     [\<lparr>tid = toastsCreated st, toastClass = ty, textContent = msg, animation = None\<rparr>]"
  "fileInputValue (showToast msg ty st) = fileInputValue st"
  "uploadSection (showToast msg ty st) = uploadSection st"
  "editSection (showToast msg ty st) = editSection st"
  "previewSection (showToast msg ty st) = previewSection st"
  "timers (showToast msg ty st) = timers st @ [(4000, FadeToast (toastsCreated st))]"
  by (simp_all add: showToast_def setTimeout_def)

lemma showSection_sel [simp]:
  "dom.more (showSection s st) = dom.more st"
  "requests (showSection s st) = requests st"
  "editForm (showSection s st) = editForm st"
  "toastContainer (showSection s st) = toastContainer st"
  "fileInputValue (showSection s st) = fileInputValue st"
  "uploadSection (showSection s st) = \<lparr>hidden = (s \<noteq> Upload), active = (s = Upload)\<rparr>"
  "editSection (showSection s st) = \<lparr>hidden = (s \<noteq> Edit), active = (s = Edit)\<rparr>"
  "previewSection (showSection s st) = \<lparr>hidden = (s \<noteq> Preview), active = (s = Preview)\<rparr>"
  "timers (showSection s st) = timers st"
  by (simp_all add: showSection_def)

text \<open>The globals of a script live in the part of the state that extends the page.\<close>

lemma app_globals_more:
  fixes a b :: "('x, 'm) app_state_scheme"
  assumes "dom.more a = dom.more b"
  shows "sessionId a = sessionId b" "currentFields a = currentFields b"
  using assms by (cases a, cases b, simp)+

lemma pdf_globals_more:
  fixes a b :: "('x, 'm) pdf_state_scheme"
  assumes "dom.more a = dom.more b"
  shows "parsedData a = parsedData b" "currentImages a = currentImages b"
  using assms by (cases a, cases b, simp)+

lemma img_globals_more:
  fixes a b :: "('x, 'm) img_state_scheme"
  assumes "dom.more a = dom.more b"
  shows "extractedData a = extractedData b"
  using assms by (cases a, cases b, simp)

lemma setTimeout_globals [simp]:
  fixes ast :: "('x, 'a) app_state_scheme"
    and pst :: "('x, 'b) pdf_state_scheme"
    and ist :: "('x, 'c) img_state_scheme"
  shows "sessionId (setTimeout cb ms ast) = sessionId ast"
    "currentFields (setTimeout cb ms ast) = currentFields ast"
    "parsedData (setTimeout cb ms pst) = parsedData pst"
    "currentImages (setTimeout cb ms pst) = currentImages pst"
    "extractedData (setTimeout cb ms ist) = extractedData ist"
  by (simp_all add: app_globals_more [OF setTimeout_sel(1)] pdf_globals_more [OF setTimeout_sel(1)]
        img_globals_more [OF setTimeout_sel(1)])

lemma fetch_globals [simp]:
  fixes ast :: "('x, 'a) app_state_scheme"
    and pst :: "('x, 'b) pdf_state_scheme"
    and ist :: "('x, 'c) img_state_scheme"
  shows "sessionId (fetch u m b ast) = sessionId ast"
    "currentFields (fetch u m b ast) = currentFields ast"
    "parsedData (fetch u m b pst) = parsedData pst"
    "currentImages (fetch u m b pst) = currentImages pst"
    "extractedData (fetch u m b ist) = extractedData ist"
  by (simp_all add: app_globals_more [OF fetch_sel(1)] pdf_globals_more [OF fetch_sel(1)]
        img_globals_more [OF fetch_sel(1)])

lemma console_error_globals [simp]:
  fixes ast :: "('x, 'a) app_state_scheme"
    and pst :: "('x, 'b) pdf_state_scheme"
    and ist :: "('x, 'c) img_state_scheme"
  shows "sessionId (console_error w e ast) = sessionId ast"
    "currentFields (console_error w e ast) = currentFields ast"
    "parsedData (console_error w e pst) = parsedData pst"
    "currentImages (console_error w e pst) = currentImages pst"
    "extractedData (console_error w e ist) = extractedData ist"
  by (simp_all add: app_globals_more [OF console_error_sel(1)] pdf_globals_more [OF console_error_sel(1)]
        img_globals_more [OF console_error_sel(1)])

lemma showToast_globals [simp]:
  fixes ast :: "('x, 'a) app_state_scheme"
    and pst :: "('x, 'b) pdf_state_scheme"
    and ist :: "('x, 'c) img_state_scheme"
  shows "sessionId (showToast msg ty ast) = sessionId ast"
    "currentFields (showToast msg ty ast) = currentFields ast"
    "parsedData (showToast msg ty pst) = parsedData pst"
    "currentImages (showToast msg ty pst) = currentImages pst"
    "extractedData (showToast msg ty ist) = extractedData ist"
  by (simp_all add: app_globals_more [OF showToast_sel(1)] pdf_globals_more [OF showToast_sel(1)]
        img_globals_more [OF showToast_sel(1)])

lemma showSection_globals [simp]:
  fixes ast :: "('x, 'a) app_state_scheme"
    and pst :: "('x, 'b) pdf_state_scheme"
    and ist :: "('x, 'c) img_state_scheme"
  shows "sessionId (showSection s ast) = sessionId ast"
    "currentFields (showSection s ast) = currentFields ast"
    "parsedData (showSection s pst) = parsedData pst"
    "currentImages (showSection s pst) = currentImages pst"
    "extractedData (showSection s ist) = extractedData ist"
  by (simp_all add: app_globals_more [OF showSection_sel(1)] pdf_globals_more [OF showSection_sel(1)]
        img_globals_more [OF showSection_sel(1)])

lemma img_generateEditForm_Some:
  fixes st :: "'x img_state"
  assumes "extractedData st = Some d"
  shows "img_generateEditForm st =
           Normal (st\<lparr>editForm := map (fieldGroup True) (enumerate 0 (fields_f d)) @
                                   (if fields_f d = [] then [NoFieldsMessage] else []),
                       currentFields := fields_f d\<rparr>)"
  using assms by (simp add: img_generateEditForm_def Let_def)

lemma img_generateEditForm_None:
  fixes st :: "'x img_state"
  assumes "extractedData st = None"
  shows "img_generateEditForm st = Thrown typeErrorMessage (st\<lparr>editForm := []\<rparr>)"
  using assms by (simp add: img_generateEditForm_def Let_def)

lemma fieldGroup_not_message: "fieldGroup badges p \<noteq> NoFieldsMessage"
  by (cases p) (simp add: fieldGroup_def)

lemma fieldGroup_badge:
  "fieldGroup True (i, fld) =
     FieldGroup (label fld) (id_f fld)
       (case confidence fld of
          None \<Rightarrow> None
        | Some c \<Rightarrow> if c \<noteq> 0 \<and> c < 70 then Some c else None)
       (if length (value_f fld) > 100 then TextareaEl else InputEl)
       (id_f fld) (value_f fld) i"
  by (simp add: fieldGroup_def lowConfidence_def split: option.split)

section \<open>The upload is refused before any request\<close>

lemma pdf_uploadFile_too_large:
  fixes st :: "'x pdf_state"
  assumes "size_f f > 5 * 1024 * 1024"
  shows "pdf_uploadFile f resp st = showToast ''File size exceeds 5 MB limit'' error st"
  using assms by (simp add: pdf_uploadFile_def)

lemma pdf_uploadFile_not_pdf:
  fixes st :: "'x pdf_state"
  assumes "\<not> size_f f > 5 * 1024 * 1024" "type f \<noteq> ''application/pdf''"
  shows "pdf_uploadFile f resp st = showToast ''Only PDF files are allowed'' error st"
  using assms by (simp add: pdf_uploadFile_def)

lemma pdf_handleDrop_not_pdf:
  fixes st :: "'x pdf_state"
  assumes "type f \<noteq> ''application/pdf''"
  shows "pdf_handleDrop (Some f) resp st =
           showToast ''Please upload a PDF file'' error (st\<lparr>uploadZoneDragOver := False\<rparr>)"
  using assms by (simp add: pdf_handleDrop_def)

text \<open>
  Claim C9. For every file larger than 5 * 1024 * 1024 bytes or whose MIME type is not
  \<^verbatim>\<open>application/pdf\<close>, \<^verbatim>\<open>uploadFile\<close> of the PDF frontend does nothing but show one
  error toast: whatever the server would have answered, no request is sent and
  \<^verbatim>\<open>sessionId\<close> and \<^verbatim>\<open>parsedData\<close> keep their values. \<^verbatim>\<open>handleDrop\<close> turns a dropped file
  that is not a PDF away with a toast of its own, so it never reaches \<^verbatim>\<open>uploadFile\<close>.
\<close>

theorem pdf_upload_validation:
  fixes st :: "'x pdf_state"
  assumes "size_f f > 5 * 1024 * 1024 \<or> type f \<noteq> ''application/pdf''"
  shows "pdf_uploadFile f resp st =
           showToast (if size_f f > 5 * 1024 * 1024 then ''File size exceeds 5 MB limit''
                      else ''Only PDF files are allowed'') error st
       \<and> requests (pdf_uploadFile f resp st) = requests st
       \<and> sessionId (pdf_uploadFile f resp st) = sessionId st
       \<and> parsedData (pdf_uploadFile f resp st) = parsedData st
       \<and> (type f \<noteq> ''application/pdf'' \<longrightarrow>
            pdf_handleDrop (Some f) resp st =
              showToast ''Please upload a PDF file'' error (st\<lparr>uploadZoneDragOver := False\<rparr>)
          \<and> requests (pdf_handleDrop (Some f) resp st) = requests st
          \<and> sessionId (pdf_handleDrop (Some f) resp st) = sessionId st
          \<and> parsedData (pdf_handleDrop (Some f) resp st) = parsedData st)"
proof -
  let ?m = "if size_f f > 5 * 1024 * 1024 then ''File size exceeds 5 MB limit''
            else ''Only PDF files are allowed''"
  have up: "pdf_uploadFile f resp st = showToast ?m error st"
    using assms pdf_uploadFile_too_large [of f resp st] pdf_uploadFile_not_pdf [of f resp st]
    by (cases "size_f f > 5 * 1024 * 1024") simp_all
  have g: "sessionId (showToast m error s) = sessionId s"
    "parsedData (showToast m error s) = parsedData s" for m and s :: "'x pdf_state"
    by (simp_all add: app_globals_more [OF showToast_sel(1)] pdf_globals_more [OF showToast_sel(1)])
  show ?thesis
    unfolding up using pdf_handleDrop_not_pdf [of f resp st]
    by (simp add: g)
qed

theorem pdf_upload_validation_witness:
  "size_f photo > 5 * 1024 * 1024
   \<and> type photo \<noteq> ''application/pdf''
   \<and> toastContainer (pdf_uploadFile photo (Rejected ''offline'') pdf_initial) =
       [\<lparr>tid = 0, toastClass = error, textContent = ''File size exceeds 5 MB limit'',
         animation = None\<rparr>]
   \<and> requests (pdf_uploadFile photo (Rejected ''offline'') pdf_initial) = []
   \<and> sessionId (pdf_uploadFile photo (Rejected ''offline'') pdf_initial) = None
   \<and> toastContainer (pdf_handleDrop (Some photo) (Rejected ''offline'') pdf_initial) =
       [\<lparr>tid = 0, toastClass = error, textContent = ''Please upload a PDF file'',
         animation = None\<rparr>]
   \<and> requests (pdf_handleDrop (Some photo) (Rejected ''offline'') pdf_initial) = []
   \<and> size_f big_pdf > 5 * 1024 * 1024
   \<and> requests (pdf_uploadFile big_pdf (Rejected ''offline'') pdf_initial) = []
   \<and> size_f blank_scan \<le> 5 * 1024 * 1024
   \<and> type blank_scan \<noteq> ''application/pdf''
   \<and> toastContainer (pdf_uploadFile blank_scan (Rejected ''offline'') pdf_initial) =
       [\<lparr>tid = 0, toastClass = error, textContent = ''Only PDF files are allowed'',
         animation = None\<rparr>]
   \<and> requests (pdf_uploadFile blank_scan (Rejected ''offline'') pdf_initial) = []"
proof -
  have h: "size_f photo > 5 * 1024 * 1024" "type photo \<noteq> ''application/pdf''"
    by (simp_all add: photo_def)
  have hb: "size_f big_pdf > 5 * 1024 * 1024"
    by (simp add: big_pdf_def)
  have hs: "size_f blank_scan \<le> 5 * 1024 * 1024" "type blank_scan \<noteq> ''application/pdf''"
    by (simp_all add: blank_scan_def)
  have i: "requests pdf_initial = []" "sessionId pdf_initial = None"
    "toastContainer pdf_initial = []" "toastsCreated pdf_initial = 0"
    by (simp_all add: pdf_initial_def)
  note th = pdf_upload_validation [of photo "Rejected ''offline''" pdf_initial]
  from th h(1) have up: "pdf_uploadFile photo (Rejected ''offline'') pdf_initial =
      showToast ''File size exceeds 5 MB limit'' error pdf_initial"
    by simp
  from th h have dr: "pdf_handleDrop (Some photo) (Rejected ''offline'') pdf_initial =
      showToast ''Please upload a PDF file'' error (pdf_initial\<lparr>uploadZoneDragOver := False\<rparr>)"
    by blast
  from pdf_upload_validation [of big_pdf "Rejected ''offline''" pdf_initial] hb
  have big: "requests (pdf_uploadFile big_pdf (Rejected ''offline'') pdf_initial) = []"
    using i by simp
  from pdf_upload_validation [of blank_scan "Rejected ''offline''" pdf_initial] hs
  have small: "pdf_uploadFile blank_scan (Rejected ''offline'') pdf_initial =
      showToast ''Only PDF files are allowed'' error pdf_initial"
    by simp
  show ?thesis
    unfolding up dr small using h hb hs i big by simp
qed

section \<open>Starting over\<close>

lemma pdf_resetUpload_more:
  fixes st :: "'x pdf_state"
  shows "sessionId (pdf_resetUpload resp st) = None"
    "parsedData (pdf_resetUpload resp st) = None"
    "currentFields (pdf_resetUpload resp st) = []"
    "currentImages (pdf_resetUpload resp st) = []"
  by (simp_all add: pdf_resetUpload_def Let_def
        app_globals_more [OF showToast_sel(1)] pdf_globals_more [OF showToast_sel(1)]
        app_globals_more [OF showSection_sel(1)] pdf_globals_more [OF showSection_sel(1)])

lemma pdf_resetUpload_page:
  fixes st :: "'x pdf_state"
  shows "fileInputValue (pdf_resetUpload resp st) = []"
    "editForm (pdf_resetUpload resp st) = []"
    "uploadSection (pdf_resetUpload resp st) = \<lparr>hidden = False, active = True\<rparr>"
    "editSection (pdf_resetUpload resp st) = \<lparr>hidden = True, active = False\<rparr>"
    "previewSection (pdf_resetUpload resp st) = \<lparr>hidden = True, active = False\<rparr>"
  by (simp_all add: pdf_resetUpload_def Let_def)

lemma img_resetUpload_more:
  fixes st :: "'x img_state"
  shows "sessionId (img_resetUpload resp st) = None"
    "extractedData (img_resetUpload resp st) = None"
    "currentFields (img_resetUpload resp st) = []"
  by (simp_all add: img_resetUpload_def Let_def
        app_globals_more [OF showToast_sel(1)] img_globals_more [OF showToast_sel(1)]
        app_globals_more [OF showSection_sel(1)] img_globals_more [OF showSection_sel(1)])

lemma img_resetUpload_page:
  fixes st :: "'x img_state"
  shows "fileInputValue (img_resetUpload resp st) = []"
    "editForm (img_resetUpload resp st) = []"
    "uploadSection (img_resetUpload resp st) = \<lparr>hidden = False, active = True\<rparr>"
    "editSection (img_resetUpload resp st) = \<lparr>hidden = True, active = False\<rparr>"
    "previewSection (img_resetUpload resp st) = \<lparr>hidden = True, active = False\<rparr>"
  by (simp_all add: img_resetUpload_def Let_def)

lemma pdf_resetUpload_console:
  fixes st :: "'x pdf_state"
  shows "console (pdf_resetUpload (Rejected msg) st) =
           (if truthy_string (sessionId st) then console st @ [(''Clear session error:'', msg)]
            else console st)"
  by (simp add: pdf_resetUpload_def Let_def showToast_def setTimeout_def showSection_def
        console_error_def fetch_def)

lemma img_resetUpload_console:
  fixes st :: "'x img_state"
  shows "console (img_resetUpload (Rejected msg) st) =
           (if truthy_string (sessionId st) then console st @ [(''Clear session error:'', msg)]
            else console st)"
  by (simp add: img_resetUpload_def Let_def showToast_def setTimeout_def showSection_def
        console_error_def fetch_def)

text \<open>
  Claim C10. From every client state and whatever becomes of the clear-session request
  (sent only when there is a session; it may be answered, answered with an error status,
  or fail outright), \<^verbatim>\<open>resetUpload\<close> of either frontend ends with \<^verbatim>\<open>sessionId\<close> null, the
  data null, the field list (and, for the PDF frontend, the image list) empty, the file
  input and the form cleared, and the upload section the one shown. A request that fails
  outright is caught: it leaves one line on the console and nothing else.
\<close>

theorem resetUpload_resets:
  fixes st :: "'x pdf_state" and ist :: "'x img_state"
  shows "sessionId (pdf_resetUpload resp st) = None
       \<and> parsedData (pdf_resetUpload resp st) = None
       \<and> currentFields (pdf_resetUpload resp st) = []
       \<and> currentImages (pdf_resetUpload resp st) = []
       \<and> fileInputValue (pdf_resetUpload resp st) = []
       \<and> editForm (pdf_resetUpload resp st) = []
       \<and> uploadSection (pdf_resetUpload resp st) = \<lparr>hidden = False, active = True\<rparr>
       \<and> editSection (pdf_resetUpload resp st) = \<lparr>hidden = True, active = False\<rparr>
       \<and> previewSection (pdf_resetUpload resp st) = \<lparr>hidden = True, active = False\<rparr>
       \<and> console (pdf_resetUpload (Rejected msg) st) =
           (if truthy_string (sessionId st) then console st @ [(''Clear session error:'', msg)]
            else console st)
       \<and> sessionId (img_resetUpload resp ist) = None
       \<and> extractedData (img_resetUpload resp ist) = None
       \<and> currentFields (img_resetUpload resp ist) = []
       \<and> fileInputValue (img_resetUpload resp ist) = []
       \<and> editForm (img_resetUpload resp ist) = []
       \<and> uploadSection (img_resetUpload resp ist) = \<lparr>hidden = False, active = True\<rparr>
       \<and> editSection (img_resetUpload resp ist) = \<lparr>hidden = True, active = False\<rparr>
       \<and> previewSection (img_resetUpload resp ist) = \<lparr>hidden = True, active = False\<rparr>
       \<and> console (img_resetUpload (Rejected msg) ist) =
           (if truthy_string (sessionId ist) then console ist @ [(''Clear session error:'', msg)]
            else console ist)"
  using pdf_resetUpload_more [of resp st] pdf_resetUpload_page [of resp st]
    img_resetUpload_more [of resp ist] img_resetUpload_page [of resp ist]
    pdf_resetUpload_console [of msg st] img_resetUpload_console [of msg ist]
  by simp

section \<open>The confidence badge\<close>

text \<open>
  Claim C6. \<^verbatim>\<open>generateEditForm\<close> of the image frontend gives every field an input of its
  own, but it marks a field as low-confidence only when \<^verbatim>\<open>field.confidence\<close> is truthy and
  below 70. A field recognised with confidence 0 is below the threshold and gets no mark,
  while its neighbour with confidence 42 does.
\<close>

theorem img_badge_zero_confidence:
  "(case img_generateEditForm
          (img_initial\<lparr>extractedData := Some \<lparr>fields_f = [garbled, line2\<lparr>confidence := Some 42\<rparr>]\<rparr>\<rparr>) of
      Thrown x s \<Rightarrow> False
    | Normal s \<Rightarrow> editForm s =
        [FieldGroup ''Line 1'' ''field_0'' None InputEl ''field_0'' ''l0rem'' 0,
         FieldGroup ''Line 2'' ''field_1'' (Some 42) InputEl ''field_1'' ''Engineer'' 1])"
  by (simp add: img_generateEditForm_def img_initial_def Let_def fieldGroup_def lowConfidence_def
        garbled_def line2_def)

section \<open>The field set of a regeneration\<close>

lemma fieldSetMatches_length:
  "length editedFields \<noteq> length layout \<Longrightarrow> \<not> fieldSetMatches layout editedFields"
  by (simp add: fieldSetMatches_def)

lemma fieldSetMatches_missing:
  "i \<in> set (map id_f layout) \<Longrightarrow> i \<notin> set (map id_f editedFields) \<Longrightarrow>
   \<not> fieldSetMatches layout editedFields"
  by (auto simp: fieldSetMatches_def)

lemma fieldSetMatches_added:
  "i \<notin> set (map id_f layout) \<Longrightarrow> i \<in> set (map id_f editedFields) \<Longrightarrow>
   \<not> fieldSetMatches layout editedFields"
  by (auto simp: fieldSetMatches_def)

lemma fieldSetMatches_distinct:
  assumes "fieldSetMatches layout editedFields" "distinct (map id_f layout)"
  shows "distinct (map id_f editedFields)"
proof -
  have "card (set (map id_f editedFields)) = card (set (map id_f layout))"
    using assms(1) by (simp add: fieldSetMatches_def)
  also have "\<dots> = length (map id_f layout)"
    using assms(2) by (rule distinct_card)
  also have "\<dots> = length (map id_f editedFields)"
    using assms(1) by (simp add: fieldSetMatches_def)
  finally show ?thesis by (rule card_distinct)
qed

lemma fieldSetMatches_edit_values:
  "map id_f editedFields = map id_f layout \<Longrightarrow> fieldSetMatches layout editedFields"
  by (metis fieldSetMatches_def length_map)

text \<open>
  Claim C1. For a session that exists, \<^verbatim>\<open>regenerate\<close> passes validation exactly when the
  edited fields have the length and the id set of the session's LayoutModel, and then hands
  them to the renderer; every mismatch is an InvalidFieldSetError. A different length, an
  id of the LayoutModel that is missing, an id that was added, and (the LayoutModel's ids
  being unique) an id that occurs twice are all mismatches. The call leaves the session
  store as it was, so a later call with a correct field set passes validation.
\<close>

theorem regenerate_field_set:
  assumes "sessions sid = Some layout"
  shows "(fieldSetMatches layout editedFields \<longrightarrow>
            regenerate render sessions sid editedFields fmt =
              (render layout editedFields fmt, sessions))
       \<and> (\<not> fieldSetMatches layout editedFields \<longrightarrow>
            regenerate render sessions sid editedFields fmt = (Inl InvalidFieldSetError, sessions))
       \<and> snd (regenerate render sessions sid editedFields fmt) = sessions
       \<and> (fieldSetMatches layout correct \<longrightarrow>
            regenerate render (snd (regenerate render sessions sid editedFields fmt)) sid correct fmt' =
              (render layout correct fmt', sessions))
       \<and> (length editedFields \<noteq> length layout \<longrightarrow> \<not> fieldSetMatches layout editedFields)
       \<and> ((\<exists>i \<in> set (map id_f layout). i \<notin> set (map id_f editedFields)) \<longrightarrow>
            \<not> fieldSetMatches layout editedFields)
       \<and> ((\<exists>i \<in> set (map id_f editedFields). i \<notin> set (map id_f layout)) \<longrightarrow>
            \<not> fieldSetMatches layout editedFields)
       \<and> (distinct (map id_f layout) \<and> \<not> distinct (map id_f editedFields) \<longrightarrow>
            \<not> fieldSetMatches layout editedFields)"
proof -
  have s: "snd (regenerate render sessions sid editedFields fmt) = sessions"
    using assms by (simp add: regenerate_def)
  have a: "fieldSetMatches layout e \<Longrightarrow>
      regenerate render sessions sid e g = (render layout e g, sessions)" for e g
    using assms by (simp add: regenerate_def)
  have b: "\<not> fieldSetMatches layout editedFields \<Longrightarrow>
      regenerate render sessions sid editedFields fmt = (Inl InvalidFieldSetError, sessions)"
    using assms by (simp add: regenerate_def)
  show ?thesis
    unfolding s using a b fieldSetMatches_length [of editedFields layout]
      fieldSetMatches_missing [of _ layout editedFields]
      fieldSetMatches_added [of _ layout editedFields]
      fieldSetMatches_distinct [of layout editedFields]
    by blast
qed

theorem regenerate_field_set_witness:
  "one_session ''6f1c'' = Some [line1, line2]
   \<and> \<not> fieldSetMatches [line1, line2] [line1]
   \<and> fieldSetMatches [line1, line2] [line1\<lparr>value_f := ''John Doe''\<rparr>, line2]
   \<and> regenerate echo_render one_session ''6f1c'' [line1] ''png''
        = (Inl InvalidFieldSetError, one_session)
   \<and> regenerate echo_render one_session ''6f1c'' [line1, line2, line3] ''png''
        = (Inl InvalidFieldSetError, one_session)
   \<and> regenerate echo_render one_session ''6f1c'' [line1, line1] ''png''
        = (Inl InvalidFieldSetError, one_session)
   \<and> regenerate echo_render
        (snd (regenerate echo_render one_session ''6f1c'' [line1] ''png'')) ''6f1c''
        [line1\<lparr>value_f := ''John Doe''\<rparr>, line2] ''png''
        = (Inr [''John Doe'', ''Engineer''], one_session)"
proof -
  have h: "one_session ''6f1c'' = Some [line1, line2]"
    by (simp add: one_session_def)
  have bad: "\<not> fieldSetMatches [line1, line2] [line1]"
    by (simp add: fieldSetMatches_def)
  have good: "fieldSetMatches [line1, line2] [line1\<lparr>value_f := ''John Doe''\<rparr>, line2]"
    by (simp add: fieldSetMatches_def)
  have r: "echo_render [line1, line2] [line1\<lparr>value_f := ''John Doe''\<rparr>, line2] ''png''
      = Inr [''John Doe'', ''Engineer'']"
    by (simp add: echo_render_def line2_def)
  have added: "\<exists>i \<in> set (map id_f [line1, line2, line3]). i \<notin> set (map id_f [line1, line2])"
    by (simp add: line1_def line2_def line3_def)
  have twice: "distinct (map id_f [line1, line2]) \<and> \<not> distinct (map id_f [line1, line1])"
    by (simp add: line1_def line2_def)
  note th = regenerate_field_set [where sessions = one_session and sid = "''6f1c''"
      and layout = "[line1, line2]" and editedFields = "[line1]" and render = echo_render
      and fmt = "''png''" and correct = "[line1\<lparr>value_f := ''John Doe''\<rparr>, line2]"
      and fmt' = "''png''", OF h]
  from th bad have first: "regenerate echo_render one_session ''6f1c'' [line1] ''png''
      = (Inl InvalidFieldSetError, one_session)"
    by blast
  from th good have "regenerate echo_render
        (snd (regenerate echo_render one_session ''6f1c'' [line1] ''png'')) ''6f1c''
        [line1\<lparr>value_f := ''John Doe''\<rparr>, line2] ''png''
        = (echo_render [line1, line2] [line1\<lparr>value_f := ''John Doe''\<rparr>, line2] ''png'',
           one_session)"
    by blast
  then have second: "regenerate echo_render
        (snd (regenerate echo_render one_session ''6f1c'' [line1] ''png'')) ''6f1c''
        [line1\<lparr>value_f := ''John Doe''\<rparr>, line2] ''png''
        = (Inr [''John Doe'', ''Engineer''], one_session)"
    unfolding r .
  from regenerate_field_set [where sessions = one_session and sid = "''6f1c''"
      and layout = "[line1, line2]" and editedFields = "[line1, line2, line3]"
      and render = echo_render and fmt = "''png''", OF h] added
  have third: "regenerate echo_render one_session ''6f1c'' [line1, line2, line3] ''png''
      = (Inl InvalidFieldSetError, one_session)"
    by blast
  from regenerate_field_set [where sessions = one_session and sid = "''6f1c''"
      and layout = "[line1, line2]" and editedFields = "[line1, line1]"
      and render = echo_render and fmt = "''png''", OF h] twice
  have fourth: "regenerate echo_render one_session ''6f1c'' [line1, line1] ''png''
      = (Inl InvalidFieldSetError, one_session)"
    by blast
  from h bad good first second third fourth show ?thesis by blast
qed

section \<open>Low-confidence warnings in the preview\<close>

lemma find_distinct_id:
  assumes "distinct (map id_f es)" "e \<in> set es"
  shows "find (\<lambda>x. id_f x = id_f e) es = Some e"
  using assms
proof (induction es)
  case Nil
  then show ?case by simp
next
  case (Cons a es)
  then show ?case by (cases "id_f a = id_f e") force+
qed

lemma unchanged_distinct:
  assumes "distinct (map id_f editedFields)" "e \<in> set editedFields" "id_f e = id_f f"
  shows "unchanged editedFields f \<longleftrightarrow> value_f e = value_f f"
  using find_distinct_id [OF assms(1,2)] assms(3) by (simp add: unchanged_def)

lemma preview_lowConfidence_iff:
  "\<lparr>fieldId = Some i, category = LowConfidence\<rparr> \<in> set (preview substituted layout editedFields)
     \<longleftrightarrow> (\<exists>f \<in> set layout. id_f f = i \<and> belowThreshold f \<and> unchanged editedFields f)"
  by (auto simp: preview_def)

text \<open>
  Claim C5. Ids being unique in the LayoutModel and among the edited fields, take a field
  extracted with a confidence below 70 and the edited field with its id: \<^verbatim>\<open>preview\<close>
  reports the lowConfidence warning of that field exactly when the edited value equals
  the extracted text.
\<close>

theorem preview_low_confidence:
  assumes "distinct (map id_f layout)" "distinct (map id_f editedFields)"
    and "f \<in> set layout" "confidence f = Some c" "c < 70"
    and "e \<in> set editedFields" "id_f e = id_f f"
  shows "\<lparr>fieldId = Some (id_f f), category = LowConfidence\<rparr>
           \<in> set (preview substituted layout editedFields)
         \<longleftrightarrow> value_f e = value_f f"
proof -
  have low: "belowThreshold f"
    using assms(4,5) by (simp add: belowThreshold_def)
  have uniq: "g = f" if "g \<in> set layout" "id_f g = id_f f" for g
    using assms(1,3) that by (meson distinct_map inj_onD)
  have "\<lparr>fieldId = Some (id_f f), category = LowConfidence\<rparr>
           \<in> set (preview substituted layout editedFields) \<longleftrightarrow> unchanged editedFields f"
    unfolding preview_lowConfidence_iff using low assms(3) uniq by blast
  then show ?thesis
    using unchanged_distinct [OF assms(2,6,7)] by simp
qed

theorem preview_low_confidence_witness:
  "distinct (map id_f [line1, line2])
   \<and> confidence line1 = Some 42
   \<and> \<lparr>fieldId = Some ''field_0'', category = LowConfidence\<rparr>
        \<in> set (preview (\<lambda>f. False) [line1, line2] [line1, line2])
   \<and> \<lparr>fieldId = Some ''field_0'', category = LowConfidence\<rparr>
        \<notin> set (preview (\<lambda>f. False) [line1, line2] [line1\<lparr>value_f := ''John Doe''\<rparr>, line2])"
proof -
  have d: "distinct (map id_f [line1, line2])"
    by (simp add: line1_def line2_def)
  have d': "distinct (map id_f [line1\<lparr>value_f := ''John Doe''\<rparr>, line2])"
    by (simp add: line1_def line2_def)
  have c: "confidence line1 = Some 42" "(42::real) < 70" "id_f line1 = ''field_0''"
    by (simp_all add: line1_def)
  have v: "value_f (line1\<lparr>value_f := ''John Doe''\<rparr>) \<noteq> value_f line1"
    by (simp add: line1_def)
  have same: "\<lparr>fieldId = Some (id_f line1), category = LowConfidence\<rparr>
        \<in> set (preview (\<lambda>f. False) [line1, line2] [line1, line2])"
    using preview_low_confidence [OF d d _ c(1,2), of line1 "\<lambda>f. False"] by simp
  have edited: "\<lparr>fieldId = Some (id_f line1), category = LowConfidence\<rparr>
        \<notin> set (preview (\<lambda>f. False) [line1, line2] [line1\<lparr>value_f := ''John Doe''\<rparr>, line2])"
    using preview_low_confidence [OF d d' _ c(1,2), of "line1\<lparr>value_f := ''John Doe''\<rparr>" "\<lambda>f. False"] v
    by simp
  from d c same edited show ?thesis by simp
qed

end
